theory Spec2Isabelle
  imports Complex_Main "HOL-Library.Sublist"
begin

section \<open>Values of the host language and of the data-frame library\<close>

text \<open>
  The strategies of \<^verbatim>\<open>strategies.py\<close> are embedded as HOL functions.  Prices,
  volumes, indicator values and multipliers are Python floats; they are modelled as
  real numbers, so a comparison or a product below is the exact one, and the values
  of a bar or of an indicator series are always numbers.  The program rounds every
  product, sum and difference to a double before it compares; which side of a
  threshold a value within rounding error of it falls on is therefore not decided
  by this model.  The one place where the
  data-frame library itself produces an undefined number, the rolling mean of a
  window that lacks observations, is modelled with an explicit not-a-number value.
  An exception raised by an index access or by a refused window is an error value;
  a call of \<^verbatim>\<open>decide\<close> returns its outcome (an error or a decision) together with
  the instance as the call left it.  A frame always has its \<^verbatim>\<open>close\<close> column.
\<close>

datatype error = IndexError | ValueError

datatype pyfloat = NaN | Num real

text \<open>A time of day as \<^verbatim>\<open>datetime.time\<close> has it; the order is the lexicographic one.\<close>

record time =
  hour :: nat
  minute :: nat
  second :: nat
  microsecond :: nat

definition time_le :: "time \<Rightarrow> time \<Rightarrow> bool" where
  "time_le a b =
     (hour a < hour b \<or> (hour a = hour b \<and>
       (minute a < minute b \<or> (minute a = minute b \<and>
         (second a < second b \<or> (second a = second b \<and>
           microsecond a \<le> microsecond b))))))"

text \<open>A timestamp is a day number and a time of day; \<^verbatim>\<open>.time()\<close> reads the latter.\<close>

record Timestamp =
  ts_day :: int
  ts_time :: time

text \<open>
  A bar of the one-minute frame, and the frame itself: its rows in time order, with
  or without a volume column.  All columns of a frame have the length of its index.
\<close>

record bar =
  bar_ts :: Timestamp
  bar_open :: real
  bar_high :: real
  bar_low :: real
  bar_close :: real

datatype DataFrame = OHLC "bar list" | OHLCV "(bar \<times> real) list"

fun df_rows :: "DataFrame \<Rightarrow> bar list" where
  "df_rows (OHLC bs) = bs"
| "df_rows (OHLCV rs) = map fst rs"

definition df_len :: "DataFrame \<Rightarrow> nat" where
  "df_len df = length (df_rows df)"

definition df_index :: "DataFrame \<Rightarrow> Timestamp list" where
  "df_index df = map bar_ts (df_rows df)"

definition df_close :: "DataFrame \<Rightarrow> real list" where
  "df_close df = map bar_close (df_rows df)"

text \<open>\<^verbatim>\<open>df.get('volume', pd.Series(dtype=float))\<close>: the column, or an empty series.\<close>

fun df_get_volume :: "DataFrame \<Rightarrow> real list" where
  "df_get_volume (OHLC bs) = []"
| "df_get_volume (OHLCV rs) = map snd rs"

text \<open>
  Positional access \<^verbatim>\<open>s.iloc[i]\<close> and \<^verbatim>\<open>idx[i]\<close>: a negative position counts from
  the end, and a position outside the series raises.
\<close>

definition iloc :: "'a list \<Rightarrow> int \<Rightarrow> error + 'a" where
  "iloc xs i =
     (let k = (if i < 0 then i + int (length xs) else i)
      in if k < 0 \<or> int (length xs) \<le> k then Inl IndexError else Inr (xs ! nat k))"

text \<open>
  \<^verbatim>\<open>s.rolling(w).mean().iloc[-1]\<close>: a negative window is refused, the mean of a
  window with fewer than \<open>w\<close> observations (or of an empty window) is not a number,
  and the last position of an empty series does not exist.
\<close>

definition rolling_mean_last :: "real list \<Rightarrow> int \<Rightarrow> error + pyfloat" where
  "rolling_mean_last xs w =
     (if w < 0 then Inl ValueError
      else if xs = [] then Inl IndexError
      else if w = 0 \<or> int (length xs) < w then Inr NaN
      else Inr (Num (sum_list (drop (length xs - nat w) xs) / real_of_int w)))"

text \<open>Truth value of \<^verbatim>\<open>avg_vol\<close>: \<^verbatim>\<open>None\<close> and zero are false, not-a-number is true.\<close>

fun truthy :: "pyfloat option \<Rightarrow> bool" where
  "truthy None = False"
| "truthy (Some NaN) = True"
| "truthy (Some (Num a)) = (a \<noteq> 0)"

text \<open>\<^verbatim>\<open>v < avg_vol * m\<close>: a comparison with not-a-number is false.\<close>

fun lt_scaled :: "real \<Rightarrow> pyfloat option \<Rightarrow> real \<Rightarrow> bool" where
  "lt_scaled v (Some (Num a)) m = (v < a * m)"
| "lt_scaled v (Some NaN) m = False"
| "lt_scaled v None m = False"

section \<open>Formatting of numbers in comments\<close>

definition digit_char :: "nat \<Rightarrow> char" where
  "digit_char d = ''0123456789'' ! d"

fun str_nat :: "nat \<Rightarrow> string" where
  "str_nat n = (if n < 10 then [digit_char n] else str_nat (n div 10) @ [digit_char (n mod 10)])"

declare str_nat.simps [simp del]

definition str_int :: "int \<Rightarrow> string" where
  "str_int i = (if i < 0 then CHR ''-'' # str_nat (nat (- i)) else str_nat (nat i))"

definition round_half_even :: "real \<Rightarrow> int" where
  "round_half_even y =
     (let f = \<lfloor>y\<rfloor>; d = y - of_int f
      in if d < 1 / 2 then f else if 1 / 2 < d then f + 1 else if even f then f else f + 1)"

definition pad5 :: "string \<Rightarrow> string" where
  "pad5 s = replicate (5 - length s) (CHR ''0'') @ s"

text \<open>The format \<^verbatim>\<open>{x:.5f}\<close>: sign, integer part, five decimals.\<close>

definition fmt_5f :: "real \<Rightarrow> string" where
  "fmt_5f x =
     (let n = nat (round_half_even (\<bar>x\<bar> * 100000))
      in (if x < 0 then ''-'' else []) @ str_nat (n div 100000) @ ''.'' @ pad5 (str_nat (n mod 100000)))"

section \<open>The decision record\<close>

record decision =
  action :: string
  comment :: string
  sl_offset :: "real option"
  tp_offset :: "real option"

section \<open>SafeStrategy\<close>

record SafeStrategy =
  ema_period :: int
  atr_period :: int
  stop_mult :: real
  target_mult :: real
  buffer_mult :: real
  volume_mult :: real
  session_start :: time
  session_end :: time
  trailing_activated :: bool

definition SafeStrategy_NAME :: string where
  "SafeStrategy_NAME = ''Safe (Low-Risk) Trend-Following Scalper''"

text \<open>The constructor; a new instance has its trailing stop not activated.\<close>

definition SafeStrategy_init ::
  "int \<Rightarrow> int \<Rightarrow> real \<Rightarrow> real \<Rightarrow> real \<Rightarrow> real \<Rightarrow> time \<Rightarrow> time \<Rightarrow> SafeStrategy" where
  "SafeStrategy_init ep ap sm tm bm vm ss se =
     \<lparr>ema_period = ep, atr_period = ap, stop_mult = sm, target_mult = tm,
      buffer_mult = bm, volume_mult = vm, session_start = ss, session_end = se,
      trailing_activated = False\<rparr>"

definition time_hm :: "nat \<Rightarrow> nat \<Rightarrow> time" where
  "time_hm h m = \<lparr>hour = h, minute = m, second = 0, microsecond = 0\<rparr>"

text \<open>The constructor with every argument at its default.\<close>

definition SafeStrategy_default :: SafeStrategy where
  "SafeStrategy_default =
     SafeStrategy_init 50 14 1 (1 / 2) (2 / 10) (15 / 10) (time_hm 8 0) (time_hm 16 0)"

definition in_session :: "SafeStrategy \<Rightarrow> Timestamp \<Rightarrow> bool" where
  "in_session self timestamp =
     (let t = ts_time timestamp
      in time_le (session_start self) t \<and> time_le t (session_end self))"

definition SafeStrategy_hold :: "string \<Rightarrow> decision" where
  "SafeStrategy_hold reason =
     \<lparr>action = ''hold'', comment = SafeStrategy_NAME @ '': '' @ reason,
      sl_offset = None, tp_offset = None\<rparr>"

text \<open>
  The tightening of the stop once the trailing stop is active; it reads the close of
  the second-to-last bar.
\<close>

definition tighten :: "string \<Rightarrow> real \<Rightarrow> real \<Rightarrow> real list \<Rightarrow> real \<Rightarrow> error + real" where
  "tighten act atr price close sl =
     (let breakeven_offset = atr * (1 / 10)
      in case iloc close (- 2) of
           Inl e \<Rightarrow> Inl e
         | Inr prev_close \<Rightarrow>
             if act = ''buy'' then Inr (min sl (price - (prev_close + breakeven_offset)))
             else Inr (min sl ((prev_close - breakeven_offset) - price)))"

text \<open>
  The part of \<^verbatim>\<open>decide\<close> after the four filters: direction, base offsets,
  activation of the trailing stop, tightening, and the result.  The instance is
  returned with the outcome, also when the read of the previous close raises.
\<close>

definition SafeStrategy_trade ::
  "SafeStrategy \<Rightarrow> real list \<Rightarrow> real \<Rightarrow> real \<Rightarrow> real \<Rightarrow> real \<Rightarrow> (error + decision) \<times> SafeStrategy" where
  "SafeStrategy_trade self close ema atr price buffer =
     (let act = (if price > ema then ''buy'' else ''sell'');
          comment0 = (if price > ema
             then ''price '' @ fmt_5f price @ '' above EMA'' @ str_int (ema_period self) @ '' + buffer''
             else ''price '' @ fmt_5f price @ '' below EMA'' @ str_int (ema_period self) @ '' - buffer'');
          sl = atr * stop_mult self;
          tp = atr * target_mult self;
          activate = (\<not> trailing_activated self \<and>
             ((act = ''buy'' \<and> price > ema + 2 * buffer) \<or>
              (act = ''sell'' \<and> price < ema - 2 * buffer)));
          self' = (if activate then self\<lparr>trailing_activated := True\<rparr> else self);
          comment1 = (if activate then comment0 @ ''; trailing stop activated'' else comment0)
      in if trailing_activated self'
         then (case tighten act atr price close sl of
                 Inl e \<Rightarrow> (Inl e, self')
               | Inr sl' \<Rightarrow>
                   (Inr \<lparr>action = act, comment = SafeStrategy_NAME @ '': '' @ comment1,
                         sl_offset = Some sl', tp_offset = Some tp\<rparr>, self'))
         else (Inr \<lparr>action = act, comment = SafeStrategy_NAME @ '': '' @ comment1,
                    sl_offset = Some sl, tp_offset = Some tp\<rparr>, self'))"

text \<open>
  The volume-spike test of \<^verbatim>\<open>decide\<close>: the rolling mean of the volume over the
  ATR period (\<^verbatim>\<open>None\<close> when the volume series is empty), then
  \<^verbatim>\<open>avg_vol and vol.iloc[-1] < avg_vol * self.volume_mult\<close>, whose right operand is
  evaluated only when the left one is true.
\<close>

definition low_volume :: "SafeStrategy \<Rightarrow> real list \<Rightarrow> error + bool" where
  "low_volume self vol =
     (case (if vol = [] then Inr None
            else map_sum id Some (rolling_mean_last vol (atr_period self))) of
        Inl e \<Rightarrow> Inl e
      | Inr avg_vol \<Rightarrow>
          if truthy avg_vol
          then (case iloc vol (- 1) of
                  Inl e \<Rightarrow> Inl e
                | Inr v \<Rightarrow> Inr (lt_scaled v avg_vol (volume_mult self)))
          else Inr False)"

text \<open>
  \<^verbatim>\<open>SafeStrategy.decide\<close>.  The two indicator functions of the module
  \<^verbatim>\<open>indicators\<close> are parameters: each maps a series (or the frame) and a period to
  a series, of which the last value is read.
\<close>

definition SafeStrategy_decide ::
  "(real list \<Rightarrow> int \<Rightarrow> real list) \<Rightarrow> (DataFrame \<Rightarrow> int \<Rightarrow> real list) \<Rightarrow>
   SafeStrategy \<Rightarrow> (string \<rightharpoonup> DataFrame) \<Rightarrow> (error + decision) \<times> SafeStrategy" where
  "SafeStrategy_decide calculate_ema calculate_atr self data =
     (case data ''ohlc_1m'' of
        None \<Rightarrow> (Inr (SafeStrategy_hold ''insufficient data''), self)
      | Some df \<Rightarrow>
          if int (df_len df) < max (ema_period self) (atr_period self)
          then (Inr (SafeStrategy_hold ''insufficient data''), self)
          else (case iloc (df_index df) (- 1) of
             Inl e \<Rightarrow> (Inl e, self)
           | Inr now \<Rightarrow>
          if \<not> in_session self now
          then (Inr (SafeStrategy_hold ''outside trading session''), self)
          else (let close = df_close df; vol = df_get_volume df in
            (case iloc (calculate_ema close (ema_period self)) (- 1) of
              Inl e \<Rightarrow> (Inl e, self)
            | Inr ema \<Rightarrow>
            (case iloc (calculate_atr df (atr_period self)) (- 1) of
              Inl e \<Rightarrow> (Inl e, self)
            | Inr atr \<Rightarrow>
            (case iloc close (- 1) of
              Inl e \<Rightarrow> (Inl e, self)
            | Inr price \<Rightarrow>
            (case low_volume self vol of
              Inl e \<Rightarrow> (Inl e, self)
            | Inr rejected \<Rightarrow>
            if rejected
            then (Inr (SafeStrategy_hold ''low volume''), self)
            else (let buffer = atr * buffer_mult self in
              if \<bar>price - ema\<bar> < buffer
              then (Inr (SafeStrategy_hold ''within buffer zone''), self)
              else SafeStrategy_trade self close ema atr price buffer))))))))"

text \<open>A sequence of calls on one instance: each call receives the instance as the
  previous call left it.\<close>

fun SafeStrategy_run ::
  "(real list \<Rightarrow> int \<Rightarrow> real list) \<Rightarrow> (DataFrame \<Rightarrow> int \<Rightarrow> real list) \<Rightarrow>
   SafeStrategy \<Rightarrow> (string \<rightharpoonup> DataFrame) list \<Rightarrow> SafeStrategy" where
  "SafeStrategy_run calculate_ema calculate_atr self [] = self"
| "SafeStrategy_run calculate_ema calculate_atr self (d # ds) =
     SafeStrategy_run calculate_ema calculate_atr
       (snd (SafeStrategy_decide calculate_ema calculate_atr self d)) ds"

section \<open>The stateless strategies\<close>

text \<open>
  The four other strategies set fixed periods and multipliers in their
  constructors and keep no state between calls.
\<close>

definition ModerateStrategy_NAME :: string where
  "ModerateStrategy_NAME = ''Moderate Trend-Following Scalper''"

definition ModerateStrategy_decide ::
  "(real list \<Rightarrow> int \<Rightarrow> real list) \<Rightarrow> (DataFrame \<Rightarrow> int \<Rightarrow> real list) \<Rightarrow>
   (string \<rightharpoonup> DataFrame) \<Rightarrow> error + decision" where
  "ModerateStrategy_decide calculate_ema calculate_atr data =
     (let ema_period = 20; atr_period = 14; stop_multiplier = 15 / 10; target_multiplier = 1 in
      case data ''ohlc_1m'' of
        None \<Rightarrow> Inr \<lparr>action = ''hold'', comment = ModerateStrategy_NAME @ '': insufficient data'',
                       sl_offset = None, tp_offset = None\<rparr>
      | Some df \<Rightarrow>
          if int (df_len df) < ema_period
          then Inr \<lparr>action = ''hold'', comment = ModerateStrategy_NAME @ '': insufficient data'',
                    sl_offset = None, tp_offset = None\<rparr>
          else (case iloc (calculate_ema (df_close df) ema_period) (- 1) of
             Inl e \<Rightarrow> Inl e
           | Inr ema \<Rightarrow>
            (case iloc (calculate_atr df atr_period) (- 1) of
             Inl e \<Rightarrow> Inl e
           | Inr atr \<Rightarrow>
            (case iloc (df_close df) (- 1) of
             Inl e \<Rightarrow> Inl e
           | Inr price \<Rightarrow>
              if price > ema
              then Inr \<lparr>action = ''buy'', comment = ModerateStrategy_NAME @ '': bullish trend detected'',
                        sl_offset = Some (atr * stop_multiplier),
                        tp_offset = Some (atr * target_multiplier)\<rparr>
              else if price < ema
              then Inr \<lparr>action = ''sell'', comment = ModerateStrategy_NAME @ '': bearish trend detected'',
                        sl_offset = Some (atr * stop_multiplier),
                        tp_offset = Some (atr * target_multiplier)\<rparr>
              else Inr \<lparr>action = ''hold'', comment = ModerateStrategy_NAME @ '': no clear trend'',
                        sl_offset = None, tp_offset = None\<rparr>))))"

definition AggressiveStrategy_NAME :: string where
  "AggressiveStrategy_NAME = ''Aggressive Trend-Following Scalper''"

definition AggressiveStrategy_decide ::
  "(real list \<Rightarrow> int \<Rightarrow> real list) \<Rightarrow> (DataFrame \<Rightarrow> int \<Rightarrow> real list) \<Rightarrow>
   (string \<rightharpoonup> DataFrame) \<Rightarrow> error + decision" where
  "AggressiveStrategy_decide calculate_ema calculate_atr data =
     (let ema_period = 10; atr_period = 7; stop_multiplier = 2; target_multiplier = 15 / 10 in
      case data ''ohlc_1m'' of
        None \<Rightarrow> Inr \<lparr>action = ''hold'', comment = AggressiveStrategy_NAME @ '': insufficient data'',
                       sl_offset = None, tp_offset = None\<rparr>
      | Some df \<Rightarrow>
          if int (df_len df) < ema_period
          then Inr \<lparr>action = ''hold'', comment = AggressiveStrategy_NAME @ '': insufficient data'',
                    sl_offset = None, tp_offset = None\<rparr>
          else (case iloc (calculate_ema (df_close df) ema_period) (- 1) of
             Inl e \<Rightarrow> Inl e
           | Inr ema \<Rightarrow>
            (case iloc (calculate_atr df atr_period) (- 1) of
             Inl e \<Rightarrow> Inl e
           | Inr atr \<Rightarrow>
            (case iloc (df_close df) (- 1) of
             Inl e \<Rightarrow> Inl e
           | Inr price \<Rightarrow>
              if price > ema
              then Inr \<lparr>action = ''buy'', comment = AggressiveStrategy_NAME @ '': going long aggressively'',
                        sl_offset = Some (atr * stop_multiplier),
                        tp_offset = Some (atr * target_multiplier)\<rparr>
              else if price < ema
              then Inr \<lparr>action = ''sell'', comment = AggressiveStrategy_NAME @ '': going short aggressively'',
                        sl_offset = Some (atr * stop_multiplier),
                        tp_offset = Some (atr * target_multiplier)\<rparr>
              else Inr \<lparr>action = ''hold'', comment = AggressiveStrategy_NAME @ '': awaiting breakout'',
                        sl_offset = None, tp_offset = None\<rparr>))))"

definition MomentumStrategy_NAME :: string where
  "MomentumStrategy_NAME = ''Momentum Fade Scalper''"

definition MomentumStrategy_decide ::
  "(real list \<Rightarrow> int \<Rightarrow> real list) \<Rightarrow> (DataFrame \<Rightarrow> int \<Rightarrow> real list) \<Rightarrow>
   (string \<rightharpoonup> DataFrame) \<Rightarrow> error + decision" where
  "MomentumStrategy_decide calculate_ema calculate_atr data =
     (let ema_period = 20; atr_period = 14; fade_threshold = 15 / 10;
          stop_multiplier = 1; target_multiplier = 15 / 10 in
      case data ''ohlc_1m'' of
        None \<Rightarrow> Inr \<lparr>action = ''hold'', comment = MomentumStrategy_NAME @ '': insufficient data'',
                       sl_offset = None, tp_offset = None\<rparr>
      | Some df \<Rightarrow>
          if int (df_len df) < ema_period
          then Inr \<lparr>action = ''hold'', comment = MomentumStrategy_NAME @ '': insufficient data'',
                    sl_offset = None, tp_offset = None\<rparr>
          else (case iloc (calculate_ema (df_close df) ema_period) (- 1) of
             Inl e \<Rightarrow> Inl e
           | Inr ema \<Rightarrow>
            (case iloc (calculate_atr df atr_period) (- 1) of
             Inl e \<Rightarrow> Inl e
           | Inr atr \<Rightarrow>
            (case iloc (df_close df) (- 1) of
             Inl e \<Rightarrow> Inl e
           | Inr price \<Rightarrow>
              (let diff = price - ema in
              if diff > atr * fade_threshold
              then Inr \<lparr>action = ''sell'', comment = MomentumStrategy_NAME @ '': fading overextension'',
                        sl_offset = Some (atr * stop_multiplier),
                        tp_offset = Some (atr * target_multiplier)\<rparr>
              else if diff < - atr * fade_threshold
              then Inr \<lparr>action = ''buy'', comment = MomentumStrategy_NAME @ '': fading downside spike'',
                        sl_offset = Some (atr * stop_multiplier),
                        tp_offset = Some (atr * target_multiplier)\<rparr>
              else Inr \<lparr>action = ''hold'', comment = MomentumStrategy_NAME @ '': no fade opportunity'',
                        sl_offset = None, tp_offset = None\<rparr>)))))"

definition MeanReversionStrategy_NAME :: string where
  "MeanReversionStrategy_NAME = ''Mean-Reversion Scalper''"

definition MeanReversionStrategy_decide ::
  "(real list \<Rightarrow> int \<Rightarrow> real list) \<Rightarrow> (DataFrame \<Rightarrow> int \<Rightarrow> real list) \<Rightarrow>
   (string \<rightharpoonup> DataFrame) \<Rightarrow> error + decision" where
  "MeanReversionStrategy_decide calculate_ema calculate_atr data =
     (let ema_period = 20; atr_period = 14; band_multiplier = 2;
          stop_multiplier = 1; target_multiplier = 2 in
      case data ''ohlc_1m'' of
        None \<Rightarrow> Inr \<lparr>action = ''hold'', comment = MeanReversionStrategy_NAME @ '': insufficient data'',
                       sl_offset = None, tp_offset = None\<rparr>
      | Some df \<Rightarrow>
          if int (df_len df) < ema_period
          then Inr \<lparr>action = ''hold'', comment = MeanReversionStrategy_NAME @ '': insufficient data'',
                    sl_offset = None, tp_offset = None\<rparr>
          else (case iloc (calculate_ema (df_close df) ema_period) (- 1) of
             Inl e \<Rightarrow> Inl e
           | Inr ema \<Rightarrow>
            (case iloc (calculate_atr df atr_period) (- 1) of
             Inl e \<Rightarrow> Inl e
           | Inr atr \<Rightarrow>
            (case iloc (df_close df) (- 1) of
             Inl e \<Rightarrow> Inl e
           | Inr price \<Rightarrow>
              (let upper = ema + atr * band_multiplier;
                   lower = ema - atr * band_multiplier in
              if price > upper
              then Inr \<lparr>action = ''sell'', comment = MeanReversionStrategy_NAME @ '': price above upper band'',
                        sl_offset = Some (atr * stop_multiplier),
                        tp_offset = Some (atr * target_multiplier)\<rparr>
              else if price < lower
              then Inr \<lparr>action = ''buy'', comment = MeanReversionStrategy_NAME @ '': price below lower band'',
                        sl_offset = Some (atr * stop_multiplier),
                        tp_offset = Some (atr * target_multiplier)\<rparr>
              else Inr \<lparr>action = ''hold'', comment = MeanReversionStrategy_NAME @ '': within bands'',
                        sl_offset = None, tp_offset = None\<rparr>)))))"

section \<open>Reference indicators\<close>

text \<open>
  Modelled from the spec: the module \<^verbatim>\<open>indicators\<close> (\<^verbatim>\<open>calculate_ema\<close>,
  \<^verbatim>\<open>calculate_atr\<close>) is not part of the source at hand.  The spec describes an
  exponential moving average of a series and an average true range "using the
  standard true-range-then-smoothed-average definition", each a series of the length
  of its input.  The two functions below are such indicators: exponential smoothing
  with factor \<open>2 / (period + 1)\<close> started at the first value, and the true range
  smoothed with weight \<open>1 / period\<close>.  The theorems about the strategies hold for
  every pair of indicator functions; these two serve where a concrete run is needed.
\<close>

fun ema_from :: "real \<Rightarrow> real \<Rightarrow> real list \<Rightarrow> real list" where
  "ema_from a prev [] = []"
| "ema_from a prev (x # xs) = (a * x + (1 - a) * prev) # ema_from a (a * x + (1 - a) * prev) xs"

definition calculate_ema_ref :: "real list \<Rightarrow> int \<Rightarrow> real list" where
  "calculate_ema_ref series period =
     (case series of [] \<Rightarrow> [] | x # xs \<Rightarrow> x # ema_from (2 / (real_of_int period + 1)) x xs)"

fun true_range_from :: "real \<Rightarrow> bar list \<Rightarrow> real list" where
  "true_range_from prev_close [] = []"
| "true_range_from prev_close (b # bs) =
     max (bar_high b - bar_low b) (max \<bar>bar_high b - prev_close\<bar> \<bar>bar_low b - prev_close\<bar>)
       # true_range_from (bar_close b) bs"

definition true_range :: "bar list \<Rightarrow> real list" where
  "true_range bs =
     (case bs of [] \<Rightarrow> [] | b # rest \<Rightarrow> (bar_high b - bar_low b) # true_range_from (bar_close b) rest)"

definition calculate_atr_ref :: "DataFrame \<Rightarrow> int \<Rightarrow> real list" where
  "calculate_atr_ref df period =
     (case true_range (df_rows df) of
        [] \<Rightarrow> []
      | t # ts \<Rightarrow> t # ema_from (1 / real_of_int period) t ts)"

section \<open>Sample snapshots\<close>

text \<open>
  Small frames and configurations on which the strategies are run below.  All bars
  are on one day, one minute apart from 10:00, inside the default session.
\<close>

definition bar_at :: "nat \<Rightarrow> real \<Rightarrow> real \<Rightarrow> real \<Rightarrow> bar" where
  "bar_at m h l c =
     \<lparr>bar_ts = \<lparr>ts_day = 0, ts_time = time_hm 10 m\<rparr>,
      bar_open = c, bar_high = h, bar_low = l, bar_close = c\<rparr>"

text \<open>Periods of three bars, every other option at its default.\<close>

definition sample_config :: SafeStrategy where
  "sample_config =
     SafeStrategy_init 3 3 1 (1 / 2) (2 / 10) (15 / 10) (time_hm 8 0) (time_hm 16 0)"

text \<open>A jump from 90 to 100, then a bar that closes where the previous one did.\<close>

definition sample_rising :: DataFrame where
  "sample_rising = OHLC [bar_at 0 91 89 90, bar_at 1 101 99 100, bar_at 2 101 99 100]"

definition sample_falling :: DataFrame where
  "sample_falling = OHLC [bar_at 3 111 109 110, bar_at 4 101 99 100, bar_at 5 101 99 100]"

text \<open>Three bars with the same close: the price sits on the average.\<close>

definition sample_flat :: DataFrame where
  "sample_flat = OHLC [bar_at 0 101 99 100, bar_at 1 101 99 100, bar_at 2 101 99 100]"

text \<open>The rising frame with a volume column whose last value is far below the mean.\<close>

definition sample_thin :: DataFrame where
  "sample_thin =
     OHLCV [(bar_at 0 91 89 90, 10), (bar_at 1 101 99 100, 10), (bar_at 2 101 99 100, 1)]"

text \<open>Nineteen bars that close at 100, then a bar that closes at 110.\<close>

definition sample_long :: DataFrame where
  "sample_long =
     OHLC [bar_at 0 101 99 100,
           bar_at 1 101 99 100,
           bar_at 2 101 99 100,
           bar_at 3 101 99 100,
           bar_at 4 101 99 100,
           bar_at 5 101 99 100,
           bar_at 6 101 99 100,
           bar_at 7 101 99 100,
           bar_at 8 101 99 100,
           bar_at 9 101 99 100,
           bar_at 10 101 99 100,
           bar_at 11 101 99 100,
           bar_at 12 101 99 100,
           bar_at 13 101 99 100,
           bar_at 14 101 99 100,
           bar_at 15 101 99 100,
           bar_at 16 101 99 100,
           bar_at 17 101 99 100,
           bar_at 18 101 99 100,
           bar_at 19 111 109 110]"

text \<open>
  The scenario with EMA 100, ATR 2 and price 101: with an EMA period of three and an
  ATR period of one, the reference indicators give these values on this frame.
\<close>

definition scenario_config :: SafeStrategy where
  "scenario_config =
     SafeStrategy_init 3 1 1 (1 / 2) (2 / 10) (15 / 10) (time_hm 8 0) (time_hm 16 0)"

definition scenario_frame :: DataFrame where
  "scenario_frame =
     OHLC [bar_at 0 (985 / 10) (965 / 10) (975 / 10),
           bar_at 1 (1015 / 10) (995 / 10) (1005 / 10),
           bar_at 2 (1015 / 10) (995 / 10) 101]"

text \<open>
  The invariant of a decision that the specification states: the action is
  \<^verbatim>\<open>hold\<close> exactly when both offsets are null, and a trade exactly when both are
  numbers.
\<close>

definition decision_invariant :: "decision \<Rightarrow> bool" where
  "decision_invariant r =
     (((action r = ''hold'') = (sl_offset r = None \<and> tp_offset r = None)) \<and>
      ((action r = ''buy'' \<or> action r = ''sell'') = (sl_offset r \<noteq> None \<and> tp_offset r \<noteq> None)))"

section \<open>Case analysis of the Safe strategy\<close>

lemma decide_absent:
  "data ''ohlc_1m'' = None \<Longrightarrow>
   SafeStrategy_decide ce ca self data = (Inr (SafeStrategy_hold ''insufficient data''), self)"
  by (simp add: SafeStrategy_decide_def)

lemma decide_short:
  "data ''ohlc_1m'' = Some df \<Longrightarrow> int (df_len df) < max (ema_period self) (atr_period self) \<Longrightarrow>
   SafeStrategy_decide ce ca self data = (Inr (SafeStrategy_hold ''insufficient data''), self)"
  by (simp add: SafeStrategy_decide_def)

lemma decide_enough:
  assumes "data ''ohlc_1m'' = Some df"
    and "\<not> int (df_len df) < max (ema_period self) (atr_period self)"
  shows "(\<exists>e. SafeStrategy_decide ce ca self data = (Inl e, self)) \<or>
     SafeStrategy_decide ce ca self data = (Inr (SafeStrategy_hold ''outside trading session''), self) \<or>
     (low_volume self (df_get_volume df) = Inr True \<and>
      SafeStrategy_decide ce ca self data = (Inr (SafeStrategy_hold ''low volume''), self)) \<or>
     (\<exists>now ema atr price.
        iloc (df_index df) (- 1) = Inr now \<and> in_session self now \<and>
        iloc (ce (df_close df) (ema_period self)) (- 1) = Inr ema \<and>
        iloc (ca df (atr_period self)) (- 1) = Inr atr \<and>
        iloc (df_close df) (- 1) = Inr price \<and>
        low_volume self (df_get_volume df) = Inr False \<and>
        (if \<bar>price - ema\<bar> < atr * buffer_mult self
         then SafeStrategy_decide ce ca self data = (Inr (SafeStrategy_hold ''within buffer zone''), self)
         else SafeStrategy_decide ce ca self data =
                SafeStrategy_trade self (df_close df) ema atr price (atr * buffer_mult self)))"
proof (cases "iloc (df_index df) (- 1)")
  case (Inl e)
  with assms show ?thesis by (simp add: SafeStrategy_decide_def)
next
  case now: (Inr now)
  show ?thesis
  proof (cases "in_session self now")
    case False
    with assms now show ?thesis by (simp add: SafeStrategy_decide_def)
  next
    case sess: True
    show ?thesis
    proof (cases "iloc (ce (df_close df) (ema_period self)) (- 1)")
      case (Inl e)
      with assms now sess show ?thesis by (simp add: SafeStrategy_decide_def Let_def)
    next
      case ema: (Inr ema)
      show ?thesis
      proof (cases "iloc (ca df (atr_period self)) (- 1)")
        case (Inl e)
        with assms now sess ema show ?thesis by (simp add: SafeStrategy_decide_def Let_def)
      next
        case atr: (Inr atr)
        show ?thesis
        proof (cases "iloc (df_close df) (- 1)")
          case (Inl e)
          with assms now sess ema atr show ?thesis by (simp add: SafeStrategy_decide_def Let_def)
        next
          case price: (Inr price)
          show ?thesis
          proof (cases "low_volume self (df_get_volume df)")
            case (Inl e)
            with assms now sess ema atr price show ?thesis
              by (simp add: SafeStrategy_decide_def Let_def)
          next
            case vol: (Inr rejected)
            show ?thesis
            proof (cases rejected)
              case True
              with assms now sess ema atr price vol show ?thesis
                by (simp add: SafeStrategy_decide_def Let_def)
            next
              case False
              with assms now sess ema atr price vol show ?thesis
                by (simp add: SafeStrategy_decide_def Let_def)
            qed
          qed
        qed
      qed
    qed
  qed
qed


lemma hold_fields:
  "action (SafeStrategy_hold reason) = ''hold''"
  "sl_offset (SafeStrategy_hold reason) = None"
  "tp_offset (SafeStrategy_hold reason) = None"
  by (simp_all add: SafeStrategy_hold_def)

lemma hold_reason_eq: "(SafeStrategy_hold r1 = SafeStrategy_hold r2) = (r1 = r2)"
  by (simp add: SafeStrategy_hold_def)

lemma trade_snd:
  "snd (SafeStrategy_trade self close ema atr price buffer) =
     (if \<not> trailing_activated self \<and>
         (if price > ema then price > ema + 2 * buffer else price < ema - 2 * buffer)
      then self\<lparr>trailing_activated := True\<rparr> else self)"
proof (cases "price > ema")
  case True
  then show ?thesis
    by (cases "trailing_activated self"; cases "price > ema + 2 * buffer")
       (simp_all add: SafeStrategy_trade_def Let_def split: sum.splits)
next
  case False
  then show ?thesis
    by (cases "trailing_activated self"; cases "price < ema - 2 * buffer")
       (simp_all add: SafeStrategy_trade_def Let_def split: sum.splits)
qed

lemma trade_latch:
  "trailing_activated self \<Longrightarrow>
   trailing_activated (snd (SafeStrategy_trade self close ema atr price buffer))"
  by (simp add: trade_snd)

lemma trade_fst:
  "fst (SafeStrategy_trade self close ema atr price buffer) =
     (let act = (if price > ema then ''buy'' else ''sell'');
          activate = (\<not> trailing_activated self \<and>
             (if price > ema then price > ema + 2 * buffer else price < ema - 2 * buffer));
          msg = SafeStrategy_NAME @ '': price '' @ fmt_5f price @
             (if price > ema then '' above EMA'' else '' below EMA'') @ str_int (ema_period self) @
             (if price > ema then '' + buffer'' else '' - buffer'') @
             (if activate then ''; trailing stop activated'' else [])
      in if trailing_activated self \<or> activate
         then (case tighten act atr price close (atr * stop_mult self) of
                 Inl e \<Rightarrow> Inl e
               | Inr sl' \<Rightarrow> Inr \<lparr>action = act, comment = msg, sl_offset = Some sl',
                                   tp_offset = Some (atr * target_mult self)\<rparr>)
         else Inr \<lparr>action = act, comment = msg, sl_offset = Some (atr * stop_mult self),
                    tp_offset = Some (atr * target_mult self)\<rparr>)"
proof (cases "price > ema")
  case True
  then show ?thesis
    by (cases "trailing_activated self"; cases "price > ema + 2 * buffer")
       (simp_all add: SafeStrategy_trade_def Let_def split: sum.splits)
next
  case False
  then show ?thesis
    by (cases "trailing_activated self"; cases "price < ema - 2 * buffer")
       (simp_all add: SafeStrategy_trade_def Let_def split: sum.splits)
qed

lemma trade_action:
  assumes "fst (SafeStrategy_trade self close ema atr price buffer) = Inr r"
  shows "action r = (if price > ema then ''buy'' else ''sell'')"
    and "tp_offset r = Some (atr * target_mult self)"
    and "\<exists>s. sl_offset r = Some s"
  using assms
  by (auto simp add: trade_fst Let_def split: sum.splits if_splits)

section \<open>Sample runs\<close>

lemma pad5_one: "pad5 [c] = CHR ''0'' # CHR ''0'' # CHR ''0'' # CHR ''0'' # [c]"
  by (simp add: pad5_def numeral_eq_Suc)

lemma round_half_even_of_int: "round_half_even (of_int k) = k"
  by (simp add: round_half_even_def)

lemma fmt_5f_100: "fmt_5f 100 = ''100.00000''"
proof -
  have "\<bar>100::real\<bar> * 100000 = of_int 10000000" by simp
  then have "round_half_even (\<bar>100::real\<bar> * 100000) = 10000000"
    by (simp only: round_half_even_of_int)
  then show ?thesis
    by (simp add: fmt_5f_def str_nat.simps digit_char_def pad5_one)
qed

lemma fmt_5f_101: "fmt_5f 101 = ''101.00000''"
proof -
  have "\<bar>101::real\<bar> * 100000 = of_int 10100000" by simp
  then have "round_half_even (\<bar>101::real\<bar> * 100000) = 10100000"
    by (simp only: round_half_even_of_int)
  then show ?thesis
    by (simp add: fmt_5f_def str_nat.simps digit_char_def pad5_one)
qed

lemma str_int_3: "str_int 3 = ''3''"
  by (simp add: str_int_def str_nat.simps digit_char_def)

lemmas sample_defs =
  sample_config_def scenario_config_def sample_rising_def sample_falling_def sample_flat_def
  sample_thin_def scenario_frame_def bar_at_def time_hm_def SafeStrategy_init_def

lemmas run_defs =
  SafeStrategy_decide_def SafeStrategy_trade_def tighten_def low_volume_def
  rolling_mean_last_def iloc_def df_len_def df_index_def df_close_def in_session_def
  time_le_def calculate_ema_ref_def calculate_atr_ref_def true_range_def
  SafeStrategy_hold_def SafeStrategy_NAME_def

lemma rising_run:
  "SafeStrategy_decide calculate_ema_ref calculate_atr_ref sample_config
     [''ohlc_1m'' \<mapsto> sample_rising] =
   (Inr \<lparr>action = ''buy'',
         comment = ''Safe (Low-Risk) Trend-Following Scalper: price 100.00000 above EMA3 + buffer; trailing stop activated'',
         sl_offset = Some (- (2 / 5)), tp_offset = Some 2\<rparr>,
    sample_config\<lparr>trailing_activated := True\<rparr>)"
  by (simp add: sample_defs run_defs fmt_5f_100 str_int_3)

lemma falling_run:
  "SafeStrategy_decide calculate_ema_ref calculate_atr_ref
     (sample_config\<lparr>trailing_activated := True\<rparr>) [''ohlc_1m'' \<mapsto> sample_falling] =
   (Inr \<lparr>action = ''sell'',
         comment = ''Safe (Low-Risk) Trend-Following Scalper: price 100.00000 below EMA3 - buffer'',
         sl_offset = Some (- (2 / 5)), tp_offset = Some 2\<rparr>,
    sample_config\<lparr>trailing_activated := True\<rparr>)"
  by (simp add: sample_defs run_defs fmt_5f_100 str_int_3)

lemma flat_run:
  "SafeStrategy_decide calculate_ema_ref calculate_atr_ref sample_config
     [''ohlc_1m'' \<mapsto> sample_flat] =
   (Inr (SafeStrategy_hold ''within buffer zone''), sample_config)"
  by (simp add: sample_defs run_defs)

lemma thin_run:
  "SafeStrategy_decide calculate_ema_ref calculate_atr_ref sample_config
     [''ohlc_1m'' \<mapsto> sample_thin] =
   (Inr (SafeStrategy_hold ''low volume''), sample_config)"
  by (simp add: sample_defs run_defs)

lemma scenario_run:
  "SafeStrategy_decide calculate_ema_ref calculate_atr_ref scenario_config
     [''ohlc_1m'' \<mapsto> scenario_frame] =
   (Inr \<lparr>action = ''buy'',
         comment = ''Safe (Low-Risk) Trend-Following Scalper: price 101.00000 above EMA3 + buffer; trailing stop activated'',
         sl_offset = Some (3 / 10), tp_offset = Some 1\<rparr>,
    scenario_config\<lparr>trailing_activated := True\<rparr>)"
  by (simp add: sample_defs run_defs fmt_5f_101 str_int_3)

section \<open>Index access\<close>

lemma iloc_last: "xs \<noteq> [] \<Longrightarrow> iloc xs (- 1) = Inr (last xs)"
  by (cases xs rule: rev_cases) (simp_all add: iloc_def)

lemma iloc_prev: "2 \<le> length xs \<Longrightarrow> iloc xs (- 2) = Inr (xs ! (length xs - 2))"
  by (simp add: iloc_def nat_diff_distrib' del: of_nat_diff) 

lemma tighten_in_range:
  "iloc close (- 2) = Inr prev_close \<Longrightarrow>
   tighten act atr price close sl =
     Inr (if act = ''buy'' then min sl (price - (prev_close + atr * (1 / 10)))
          else min sl ((prev_close - atr * (1 / 10)) - price))"
  by (simp add: tighten_def)

lemma tighten_Inr:
  "tighten act atr price close sl = Inr s \<Longrightarrow>
   \<exists>prev_close. iloc close (- 2) = Inr prev_close \<and>
     s = (if act = ''buy'' then min sl (price - (prev_close + atr * (1 / 10)))
          else min sl ((prev_close - atr * (1 / 10)) - price))"
  by (cases "iloc close (- 2)") (auto simp add: tighten_def Let_def)

section \<open>The latch\<close>

lemma decide_snd:
  "snd (SafeStrategy_decide ce ca self data) = self \<or>
   (\<exists>close ema atr price buffer.
      SafeStrategy_decide ce ca self data = SafeStrategy_trade self close ema atr price buffer)"
proof (cases "data ''ohlc_1m''")
  case None
  then show ?thesis by (simp add: decide_absent)
next
  case (Some df)
  show ?thesis
  proof (cases "int (df_len df) < max (ema_period self) (atr_period self)")
    case True
    with Some show ?thesis by (simp add: decide_short)
  next
    case False
    from decide_enough [where data = data and self = self and ce = ce and ca = ca, OF Some False]
    have "snd (SafeStrategy_decide ce ca self data) = self \<or>
      (\<exists>ema atr price. SafeStrategy_decide ce ca self data =
         SafeStrategy_trade self (df_close df) ema atr price (atr * buffer_mult self))"
      by (elim disjE exE conjE) (simp_all split: if_splits, blast+)
    then show ?thesis by blast
  qed
qed

lemma decide_latch:
  "trailing_activated self \<Longrightarrow>
   trailing_activated (snd (SafeStrategy_decide ce ca self data))"
  using decide_snd [of ce ca self data] by (auto simp add: trade_latch)

lemma run_latch:
  "trailing_activated self \<Longrightarrow> trailing_activated (SafeStrategy_run ce ca self ds)"
  by (induction ds arbitrary: self) (simp_all add: decide_latch)

lemma run_append:
  "SafeStrategy_run ce ca self (ds @ es) =
   SafeStrategy_run ce ca (SafeStrategy_run ce ca self ds) es"
  by (induction ds arbitrary: self) simp_all

text \<open>
  Claim C2.  A new instance has \<^verbatim>\<open>trailing_activated\<close> false, and the flag is a
  one-way latch: if it is true after some sequence of calls of \<^verbatim>\<open>decide\<close>, it is
  true after every continuation of that sequence, whatever the later snapshots are
  and whatever the later calls return (a decision or an exception).
\<close>

theorem trailing_latch:
  "\<not> trailing_activated (SafeStrategy_init ep ap sm tm bm vm ss se) \<and>
   (trailing_activated (SafeStrategy_run ce ca self ds) \<longrightarrow>
    trailing_activated (SafeStrategy_run ce ca self (ds @ es)))"
  by (simp add: SafeStrategy_init_def run_append run_latch)

theorem trailing_latch_witness:
  "trailing_activated (SafeStrategy_run calculate_ema_ref calculate_atr_ref sample_config
     [[''ohlc_1m'' \<mapsto> sample_rising]]) \<and>
   trailing_activated (SafeStrategy_run calculate_ema_ref calculate_atr_ref sample_config
     ([[''ohlc_1m'' \<mapsto> sample_rising]] @ [[''ohlc_1m'' \<mapsto> sample_falling], Map.empty]))"
proof -
  have first: "trailing_activated (SafeStrategy_run calculate_ema_ref calculate_atr_ref
     sample_config [[''ohlc_1m'' \<mapsto> sample_rising]])"
    by (simp add: rising_run)
  with trailing_latch [of 3 3 1 1 1 1 "time_hm 8 0" "time_hm 16 0"
      calculate_ema_ref calculate_atr_ref sample_config "[[''ohlc_1m'' \<mapsto> sample_rising]]"
      "[[''ohlc_1m'' \<mapsto> sample_falling], Map.empty]"]
  show ?thesis by blast
qed

section \<open>Outcomes of a call\<close>

lemma trade_not_hold:
  "fst (SafeStrategy_trade self close ema atr price buffer) \<noteq> Inr (SafeStrategy_hold reason)"
proof
  assume "fst (SafeStrategy_trade self close ema atr price buffer) = Inr (SafeStrategy_hold reason)"
  from trade_action(1) [OF this] show False
    by (simp add: hold_fields split: if_splits)
qed

lemma decide_trade_action:
  assumes "SafeStrategy_decide ce ca self data = SafeStrategy_trade self close ema atr price buffer"
    and "SafeStrategy_decide ce ca self data = (Inr r, self')"
  shows "action r \<noteq> ''hold''"
proof -
  from assms have "fst (SafeStrategy_trade self close ema atr price buffer) = Inr r"
    by (metis fst_conv)
  from trade_action(1) [OF this] show ?thesis by (simp split: if_splits)
qed

lemma decide_changed:
  assumes "snd (SafeStrategy_decide ce ca self data) \<noteq> self"
  shows "\<exists>df now ema atr price. data ''ohlc_1m'' = Some df \<and>
     \<not> int (df_len df) < max (ema_period self) (atr_period self) \<and>
     iloc (df_index df) (- 1) = Inr now \<and> in_session self now \<and>
     iloc (ce (df_close df) (ema_period self)) (- 1) = Inr ema \<and>
     iloc (ca df (atr_period self)) (- 1) = Inr atr \<and>
     iloc (df_close df) (- 1) = Inr price \<and>
     low_volume self (df_get_volume df) = Inr False \<and>
     \<not> \<bar>price - ema\<bar> < atr * buffer_mult self \<and>
     snd (SafeStrategy_decide ce ca self data) = self\<lparr>trailing_activated := True\<rparr>"
proof (cases "data ''ohlc_1m''")
  case None
  with assms show ?thesis by (simp add: decide_absent)
next
  case (Some df)
  show ?thesis
  proof (cases "int (df_len df) < max (ema_period self) (atr_period self)")
    case True
    with Some assms show ?thesis by (simp add: decide_short)
  next
    case False
    from decide_enough [where data = data and self = self and ce = ce and ca = ca, OF Some False]
      assms
    obtain now ema atr price where reads:
      "iloc (df_index df) (- 1) = Inr now" "in_session self now"
      "iloc (ce (df_close df) (ema_period self)) (- 1) = Inr ema"
      "iloc (ca df (atr_period self)) (- 1) = Inr atr"
      "iloc (df_close df) (- 1) = Inr price"
      "low_volume self (df_get_volume df) = Inr False"
      and branch: "if \<bar>price - ema\<bar> < atr * buffer_mult self
         then SafeStrategy_decide ce ca self data = (Inr (SafeStrategy_hold ''within buffer zone''), self)
         else SafeStrategy_decide ce ca self data =
                SafeStrategy_trade self (df_close df) ema atr price (atr * buffer_mult self)"
      by (elim disjE exE conjE) simp_all
    from branch assms have outside: "\<not> \<bar>price - ema\<bar> < atr * buffer_mult self"
      by (auto split: if_splits)
    with branch have "SafeStrategy_decide ce ca self data =
        SafeStrategy_trade self (df_close df) ema atr price (atr * buffer_mult self)"
      by simp
    with assms have "snd (SafeStrategy_decide ce ca self data) = self\<lparr>trailing_activated := True\<rparr>"
      by (simp add: trade_snd split: if_splits)
    with Some False reads outside show ?thesis by blast
  qed
qed

text \<open>
  Claim C7.  A call of \<^verbatim>\<open>decide\<close> that returns the action \<^verbatim>\<open>hold\<close> leaves the
  instance as it was: the trailing flag and every configuration field are those of
  before the call.  The instance differs after a call only when the call passed all
  four filters, and then only in the trailing flag, which is set.
\<close>

theorem hold_keeps_instance:
  assumes "SafeStrategy_decide ce ca self data = (out, self')"
  shows "(out = Inr r \<and> action r = ''hold'' \<longrightarrow> self' = self) \<and>
     (self' \<noteq> self \<longrightarrow>
       (\<exists>df now ema atr price. data ''ohlc_1m'' = Some df \<and>
          \<not> int (df_len df) < max (ema_period self) (atr_period self) \<and>
          iloc (df_index df) (- 1) = Inr now \<and> in_session self now \<and>
          iloc (ce (df_close df) (ema_period self)) (- 1) = Inr ema \<and>
          iloc (ca df (atr_period self)) (- 1) = Inr atr \<and>
          iloc (df_close df) (- 1) = Inr price \<and>
          low_volume self (df_get_volume df) = Inr False \<and>
          \<not> \<bar>price - ema\<bar> < atr * buffer_mult self \<and>
          self' = self\<lparr>trailing_activated := True\<rparr>))"
proof -
  have kept: "self' = self" if "out = Inr r" and "action r = ''hold''"
  proof -
    from decide_snd [of ce ca self data]
    show ?thesis
    proof
      assume "snd (SafeStrategy_decide ce ca self data) = self"
      with assms show ?thesis by simp
    next
      assume "\<exists>close ema atr price buffer.
        SafeStrategy_decide ce ca self data = SafeStrategy_trade self close ema atr price buffer"
      then obtain close ema atr price buffer where
        "SafeStrategy_decide ce ca self data = SafeStrategy_trade self close ema atr price buffer"
        by blast
      from decide_trade_action [OF this] assms that show ?thesis by simp
    qed
  qed
  from assms have post: "snd (SafeStrategy_decide ce ca self data) = self'" by simp
  from decide_changed [of ce ca self data] post kept show ?thesis by auto
qed

theorem hold_keeps_instance_witness:
  "SafeStrategy_decide calculate_ema_ref calculate_atr_ref sample_config
     [''ohlc_1m'' \<mapsto> sample_flat] =
     (Inr (SafeStrategy_hold ''within buffer zone''), sample_config) \<and>
   action (SafeStrategy_hold ''within buffer zone'') = ''hold'' \<and>
   SafeStrategy_decide calculate_ema_ref calculate_atr_ref sample_config
     [''ohlc_1m'' \<mapsto> sample_rising] =
     (Inr \<lparr>action = ''buy'',
         comment = ''Safe (Low-Risk) Trend-Following Scalper: price 100.00000 above EMA3 + buffer; trailing stop activated'',
         sl_offset = Some (- (2 / 5)), tp_offset = Some 2\<rparr>,
      sample_config\<lparr>trailing_activated := True\<rparr>) \<and>
   sample_config\<lparr>trailing_activated := True\<rparr> \<noteq> sample_config \<and>
   (\<exists>df now ema atr price. [''ohlc_1m'' \<mapsto> sample_rising] ''ohlc_1m'' = Some df \<and>
      \<not> int (df_len df) < max (ema_period sample_config) (atr_period sample_config) \<and>
      iloc (df_index df) (- 1) = Inr now \<and> in_session sample_config now \<and>
      iloc (calculate_ema_ref (df_close df) (ema_period sample_config)) (- 1) = Inr ema \<and>
      iloc (calculate_atr_ref df (atr_period sample_config)) (- 1) = Inr atr \<and>
      iloc (df_close df) (- 1) = Inr price \<and>
      low_volume sample_config (df_get_volume df) = Inr False \<and>
      \<not> \<bar>price - ema\<bar> < atr * buffer_mult sample_config)"
proof -
  have changed: "sample_config\<lparr>trailing_activated := True\<rparr> \<noteq> sample_config"
    by (simp add: sample_config_def SafeStrategy_init_def)
  from hold_keeps_instance [OF flat_run, of "SafeStrategy_hold ''within buffer zone''"]
  have "sample_config = sample_config" by (simp add: hold_fields)
  from hold_keeps_instance [OF rising_run] changed
  have "\<exists>df now ema atr price. [''ohlc_1m'' \<mapsto> sample_rising] ''ohlc_1m'' = Some df \<and>
      \<not> int (df_len df) < max (ema_period sample_config) (atr_period sample_config) \<and>
      iloc (df_index df) (- 1) = Inr now \<and> in_session sample_config now \<and>
      iloc (calculate_ema_ref (df_close df) (ema_period sample_config)) (- 1) = Inr ema \<and>
      iloc (calculate_atr_ref df (atr_period sample_config)) (- 1) = Inr atr \<and>
      iloc (df_close df) (- 1) = Inr price \<and>
      low_volume sample_config (df_get_volume df) = Inr False \<and>
      \<not> \<bar>price - ema\<bar> < atr * buffer_mult sample_config"
    by blast
  with flat_run rising_run changed show ?thesis by (simp add: hold_fields)
qed

text \<open>
  Claim C4.  \<^verbatim>\<open>decide\<close> returns the hold decision with the reason "insufficient
  data" exactly when the snapshot is absent or has fewer bars than the larger of the
  two periods.
\<close>

theorem insufficient_data_exactly:
  "(fst (SafeStrategy_decide ce ca self data) = Inr (SafeStrategy_hold ''insufficient data'')) =
   (case data ''ohlc_1m'' of
      None \<Rightarrow> True
    | Some df \<Rightarrow> int (df_len df) < max (ema_period self) (atr_period self))"
proof (cases "data ''ohlc_1m''")
  case None
  then show ?thesis by (simp add: decide_absent)
next
  case (Some df)
  show ?thesis
  proof (cases "int (df_len df) < max (ema_period self) (atr_period self)")
    case True
    with Some show ?thesis by (simp add: decide_short)
  next
    case False
    from decide_enough [where data = data and self = self and ce = ce and ca = ca, OF Some False]
    have "fst (SafeStrategy_decide ce ca self data) \<noteq> Inr (SafeStrategy_hold ''insufficient data'')"
      by (elim disjE exE conjE) (auto simp add: hold_reason_eq trade_not_hold split: if_splits)
    with Some False show ?thesis by simp
  qed
qed


theorem insufficient_data_exactly_witness:
  "fst (SafeStrategy_decide calculate_ema_ref calculate_atr_ref sample_config
     [''ohlc_1m'' \<mapsto> sample_rising]) \<noteq> Inr (SafeStrategy_hold ''insufficient data'') \<and>
   fst (SafeStrategy_decide calculate_ema_ref calculate_atr_ref sample_config
     [''ohlc_1m'' \<mapsto> OHLC [bar_at 0 91 89 90, bar_at 1 101 99 100]]) =
     Inr (SafeStrategy_hold ''insufficient data'') \<and>
   fst (SafeStrategy_decide calculate_ema_ref calculate_atr_ref sample_config Map.empty) =
     Inr (SafeStrategy_hold ''insufficient data'')"
  using
    insufficient_data_exactly [of calculate_ema_ref calculate_atr_ref sample_config
      "[''ohlc_1m'' \<mapsto> sample_rising]"]
    insufficient_data_exactly [of calculate_ema_ref calculate_atr_ref sample_config
      "[''ohlc_1m'' \<mapsto> OHLC [bar_at 0 91 89 90, bar_at 1 101 99 100]]"]
    insufficient_data_exactly [of calculate_ema_ref calculate_atr_ref sample_config Map.empty]
  by (simp add: sample_config_def SafeStrategy_init_def sample_rising_def df_len_def)

lemmas read_defs =
  sample_defs iloc_def df_len_def df_index_def df_close_def in_session_def time_le_def
  calculate_ema_ref_def calculate_atr_ref_def true_range_def low_volume_def

lemma low_volume_True:
  assumes "low_volume self vol = Inr True"
  shows "vol \<noteq> [] \<and> (\<exists>a. rolling_mean_last vol (atr_period self) = Inr (Num a) \<and> a \<noteq> 0 \<and>
           last vol < a * volume_mult self)"
proof (cases "vol = []")
  case True
  with assms show ?thesis by (simp add: low_volume_def)
next
  case False
  then have lastv: "iloc vol (- 1) = Inr (last vol)" by (rule iloc_last)
  show ?thesis
  proof (cases "rolling_mean_last vol (atr_period self)")
    case (Inl e)
    with assms False show ?thesis by (simp add: low_volume_def)
  next
    case (Inr avg)
    show ?thesis
    proof (cases avg)
      case NaN
      with assms False Inr lastv show ?thesis by (simp add: low_volume_def)
    next
      case (Num a)
      with assms False Inr lastv show ?thesis
        by (cases "a = 0") (simp_all add: low_volume_def)
    qed
  qed
qed

text \<open>
  Claim C6.  \<^verbatim>\<open>decide\<close> returns the hold decision with the reason "low volume" only
  when the volume series is not empty, its rolling mean over the ATR period is a
  number other than zero, and the latest volume is strictly below that mean times
  \<^verbatim>\<open>volume_mult\<close>.  So an empty volume series, an undefined or zero mean, and a
  latest volume equal to the threshold never lead to this rejection.
\<close>

theorem low_volume_only_when:
  assumes "fst (SafeStrategy_decide ce ca self data) = Inr (SafeStrategy_hold ''low volume'')"
  shows "\<exists>df a. data ''ohlc_1m'' = Some df \<and> df_get_volume df \<noteq> [] \<and>
           rolling_mean_last (df_get_volume df) (atr_period self) = Inr (Num a) \<and> a \<noteq> 0 \<and>
           last (df_get_volume df) < a * volume_mult self"
proof (cases "data ''ohlc_1m''")
  case None
  with assms show ?thesis by (simp add: decide_absent hold_reason_eq)
next
  case (Some df)
  show ?thesis
  proof (cases "int (df_len df) < max (ema_period self) (atr_period self)")
    case True
    with Some assms show ?thesis by (simp add: decide_short hold_reason_eq)
  next
    case False
    from decide_enough [where data = data and self = self and ce = ce and ca = ca, OF Some False] assms
    have "low_volume self (df_get_volume df) = Inr True"
      by (elim disjE exE conjE) (auto simp add: hold_reason_eq trade_not_hold split: if_splits)
    from low_volume_True [OF this] Some show ?thesis by blast
  qed
qed

theorem low_volume_only_when_witness:
  "fst (SafeStrategy_decide calculate_ema_ref calculate_atr_ref sample_config
     [''ohlc_1m'' \<mapsto> sample_thin]) = Inr (SafeStrategy_hold ''low volume'') \<and>
   (\<exists>df a. [''ohlc_1m'' \<mapsto> sample_thin] ''ohlc_1m'' = Some df \<and> df_get_volume df \<noteq> [] \<and>
           rolling_mean_last (df_get_volume df) (atr_period sample_config) = Inr (Num a) \<and> a \<noteq> 0 \<and>
           last (df_get_volume df) < a * volume_mult sample_config)"
proof -
  have rejected: "fst (SafeStrategy_decide calculate_ema_ref calculate_atr_ref sample_config
     [''ohlc_1m'' \<mapsto> sample_thin]) = Inr (SafeStrategy_hold ''low volume'')"
    by (simp add: thin_run)
  from rejected low_volume_only_when [OF rejected] show ?thesis by blast
qed

section \<open>The tightened stop\<close>

lemma trade_tightened:
  assumes run: "SafeStrategy_trade self close ema atr price buffer = (Inr r, self')"
    and on: "trailing_activated self'"
  shows "\<exists>prev_close. iloc close (- 2) = Inr prev_close \<and>
     (action r = ''buy'' \<or> action r = ''sell'') \<and>
     sl_offset r = Some (if action r = ''buy''
        then min (atr * stop_mult self) (price - (prev_close + atr * (1 / 10)))
        else min (atr * stop_mult self) ((prev_close - atr * (1 / 10)) - price)) \<and>
     tp_offset r = Some (atr * target_mult self)"
proof -
  let ?act = "if price > ema then ''buy'' else ''sell''"
  from run have out: "fst (SafeStrategy_trade self close ema atr price buffer) = Inr r"
    and post: "snd (SafeStrategy_trade self close ema atr price buffer) = self'"
    by simp_all
  from post on have armed: "trailing_activated self \<or> (\<not> trailing_activated self \<and>
      (if price > ema then price > ema + 2 * buffer else price < ema - 2 * buffer))"
    by (auto simp add: trade_snd split: if_splits)
  show ?thesis
  proof (cases "tighten ?act atr price close (atr * stop_mult self)")
    case (Inl e)
    with out armed show ?thesis by (auto simp add: trade_fst Let_def)
  next
    case (Inr s)
    from tighten_Inr [OF Inr] obtain prev_close where
      pc: "iloc close (- 2) = Inr prev_close" and
      s: "s = (if ?act = ''buy'' then min (atr * stop_mult self) (price - (prev_close + atr * (1 / 10)))
          else min (atr * stop_mult self) ((prev_close - atr * (1 / 10)) - price))"
      by blast
    from out armed Inr have
      "action r = ?act" "sl_offset r = Some s" "tp_offset r = Some (atr * target_mult self)"
      by (auto simp add: trade_fst Let_def)
    with pc s show ?thesis by (cases "price > ema") auto
  qed
qed

lemma decide_traded:
  assumes run: "SafeStrategy_decide ce ca self data = (Inr r, self')"
    and act: "action r \<noteq> ''hold''"
  shows "\<exists>df ema atr price. data ''ohlc_1m'' = Some df \<and>
     iloc (ce (df_close df) (ema_period self)) (- 1) = Inr ema \<and>
     iloc (ca df (atr_period self)) (- 1) = Inr atr \<and>
     iloc (df_close df) (- 1) = Inr price \<and>
     SafeStrategy_trade self (df_close df) ema atr price (atr * buffer_mult self) = (Inr r, self')"
proof (cases "data ''ohlc_1m''")
  case None
  with run act show ?thesis by (auto simp add: decide_absent hold_fields)
next
  case (Some df)
  show ?thesis
  proof (cases "int (df_len df) < max (ema_period self) (atr_period self)")
    case True
    with Some run act show ?thesis by (auto simp add: decide_short hold_fields)
  next
    case False
    from decide_enough [where data = data and self = self and ce = ce and ca = ca, OF Some False]
      run act
    have "\<exists>ema atr price.
       iloc (ce (df_close df) (ema_period self)) (- 1) = Inr ema \<and>
       iloc (ca df (atr_period self)) (- 1) = Inr atr \<and>
       iloc (df_close df) (- 1) = Inr price \<and>
       SafeStrategy_trade self (df_close df) ema atr price (atr * buffer_mult self) = (Inr r, self')"
      by (elim disjE exE conjE) (auto simp add: hold_fields split: if_splits)
    with Some show ?thesis by blast
  qed
qed

text \<open>
  Claim C3.  When a call of \<^verbatim>\<open>decide\<close> returns a trade (all filters passed) and
  the trailing flag is true after the call, the second-to-last close \<open>prev_close\<close>
  was read and the stop offset is \<open>min (ATR * stop_mult) (price - (prev_close + ATR * 0.1))\<close>
  for a buy and \<open>min (ATR * stop_mult) ((prev_close - ATR * 0.1) - price)\<close> for a sell;
  the target offset is \<open>ATR * target_mult\<close>.
\<close>

theorem tightened_stop:
  assumes "SafeStrategy_decide ce ca self data = (Inr r, self')"
    and "action r \<noteq> ''hold''"
    and "trailing_activated self'"
  shows "\<exists>df ema atr price prev_close. data ''ohlc_1m'' = Some df \<and>
     iloc (ce (df_close df) (ema_period self)) (- 1) = Inr ema \<and>
     iloc (ca df (atr_period self)) (- 1) = Inr atr \<and>
     iloc (df_close df) (- 1) = Inr price \<and>
     iloc (df_close df) (- 2) = Inr prev_close \<and>
     (action r = ''buy'' \<or> action r = ''sell'') \<and>
     sl_offset r = Some (if action r = ''buy''
        then min (atr * stop_mult self) (price - (prev_close + atr * (1 / 10)))
        else min (atr * stop_mult self) ((prev_close - atr * (1 / 10)) - price)) \<and>
     tp_offset r = Some (atr * target_mult self)"
proof -
  from decide_traded [OF assms(1,2)] obtain df ema atr price where
    reads: "data ''ohlc_1m'' = Some df"
      "iloc (ce (df_close df) (ema_period self)) (- 1) = Inr ema"
      "iloc (ca df (atr_period self)) (- 1) = Inr atr"
      "iloc (df_close df) (- 1) = Inr price"
    and tr: "SafeStrategy_trade self (df_close df) ema atr price (atr * buffer_mult self) = (Inr r, self')"
    by blast
  from trade_tightened [OF tr assms(3)] reads show ?thesis by blast
qed

theorem tightened_stop_witness:
  "SafeStrategy_decide calculate_ema_ref calculate_atr_ref
     (sample_config\<lparr>trailing_activated := True\<rparr>) [''ohlc_1m'' \<mapsto> sample_falling] =
   (Inr \<lparr>action = ''sell'',
         comment = ''Safe (Low-Risk) Trend-Following Scalper: price 100.00000 below EMA3 - buffer'',
         sl_offset = Some (- (2 / 5)), tp_offset = Some 2\<rparr>,
    sample_config\<lparr>trailing_activated := True\<rparr>) \<and>
   (\<exists>df ema atr price prev_close. [''ohlc_1m'' \<mapsto> sample_falling] ''ohlc_1m'' = Some df \<and>
     iloc (calculate_ema_ref (df_close df) 3) (- 1) = Inr ema \<and>
     iloc (calculate_atr_ref df 3) (- 1) = Inr atr \<and>
     iloc (df_close df) (- 1) = Inr price \<and>
     iloc (df_close df) (- 2) = Inr prev_close \<and>
     Some (- (2 / 5)) = Some (min (atr * 1) ((prev_close - atr * (1 / 10)) - price)) \<and>
     Some 2 = Some (atr * (1 / 2)))"
  using tightened_stop [OF falling_run] falling_run
  by (simp add: sample_config_def SafeStrategy_init_def)

text \<open>
  Claim C8.  With \<open>max ema_period atr_period \<ge> 2\<close>, a snapshot that passes the
  data-sufficiency filter (as every snapshot for which the tightening runs has) holds
  at least two bars, so the read of the second-to-last close is in range: the
  tightening returns a stop, the part of \<^verbatim>\<open>decide\<close> after the filters returns a
  decision, and a call either returns a decision or raises before the trailing flag
  is touched.
\<close>

theorem prev_close_in_range:
  assumes "2 \<le> max (ema_period self) (atr_period self)"
    and "data ''ohlc_1m'' = Some df"
    and "\<not> int (df_len df) < max (ema_period self) (atr_period self)"
  shows "2 \<le> df_len df \<and>
     iloc (df_close df) (- 2) = Inr (df_close df ! (df_len df - 2)) \<and>
     (\<exists>s. tighten act atr price (df_close df) sl = Inr s) \<and>
     (\<exists>r. fst (SafeStrategy_trade self (df_close df) ema atr price buffer) = Inr r) \<and>
     ((\<exists>r. fst (SafeStrategy_decide ce ca self data) = Inr r) \<or>
      snd (SafeStrategy_decide ce ca self data) = self)"
proof -
  from assms(1,3) have len: "2 \<le> df_len df" by linarith
  then have "2 \<le> length (df_close df)" by (simp add: df_close_def df_len_def)
  from iloc_prev [OF this]
  have prev: "iloc (df_close df) (- 2) = Inr (df_close df ! (df_len df - 2))"
    by (simp add: df_close_def df_len_def)
  have tight: "\<And>act atr price sl. \<exists>s. tighten act atr price (df_close df) sl = Inr s"
    by (simp add: tighten_in_range [OF prev])
  have trade: "\<And>ema atr price buffer.
      \<exists>r. fst (SafeStrategy_trade self (df_close df) ema atr price buffer) = Inr r"
  proof -
    fix ema atr price buffer
    from tight [of "if price > ema then ''buy'' else ''sell''" atr price "atr * stop_mult self"]
    obtain s where "tighten (if price > ema then ''buy'' else ''sell'') atr price (df_close df)
      (atr * stop_mult self) = Inr s" by blast
    then show "\<exists>r. fst (SafeStrategy_trade self (df_close df) ema atr price buffer) = Inr r"
      by (simp add: trade_fst Let_def)
  qed
  from decide_enough [where data = data and self = self and ce = ce and ca = ca, OF assms(2,3)]
  have "(\<exists>r. fst (SafeStrategy_decide ce ca self data) = Inr r) \<or>
      snd (SafeStrategy_decide ce ca self data) = self"
    by (elim disjE exE conjE) (auto simp add: trade split: if_splits)
  with len prev tight trade show ?thesis by blast
qed

theorem prev_close_in_range_witness:
  "2 \<le> max (ema_period sample_config) (atr_period sample_config) \<and>
   [''ohlc_1m'' \<mapsto> sample_rising] ''ohlc_1m'' = Some sample_rising \<and>
   \<not> int (df_len sample_rising) < max (ema_period sample_config) (atr_period sample_config) \<and>
   2 \<le> df_len sample_rising \<and>
   iloc (df_close sample_rising) (- 2) = Inr 100"
proof -
  have h1: "2 \<le> max (ema_period sample_config) (atr_period sample_config)"
    by (simp add: read_defs)
  have h2: "[''ohlc_1m'' \<mapsto> sample_rising] ''ohlc_1m'' = Some sample_rising" by simp
  have h3: "\<not> int (df_len sample_rising) < max (ema_period sample_config) (atr_period sample_config)"
    by (simp add: read_defs)
  from prev_close_in_range [where data = "[''ohlc_1m'' \<mapsto> sample_rising]", OF h1 h2 h3]
  have "2 \<le> df_len sample_rising"
    and "iloc (df_close sample_rising) (- 2) = Inr (df_close sample_rising ! (df_len sample_rising - 2))"
    by blast+
  moreover have "df_close sample_rising ! (df_len sample_rising - 2) = 100"
    by (simp add: read_defs)
  ultimately show ?thesis using h1 h2 h3 by simp
qed

section \<open>A negative stop offset\<close>

text \<open>
  Claim C9.  There is an input on which \<^verbatim>\<open>decide\<close> returns a trade with a
  strictly negative stop offset, as an ordinary decision: a new instance with periods
  of three and the default multipliers, on three bars closing at 90, 100 and 100,
  buys, activates the trailing stop and returns the stop offset \<open>- 0.4\<close>.
\<close>

theorem negative_stop_returned:
  "SafeStrategy_decide calculate_ema_ref calculate_atr_ref
     (SafeStrategy_init 3 3 1 (1 / 2) (2 / 10) (15 / 10) (time_hm 8 0) (time_hm 16 0))
     [''ohlc_1m'' \<mapsto> sample_rising] =
   (Inr \<lparr>action = ''buy'',
         comment = ''Safe (Low-Risk) Trend-Following Scalper: price 100.00000 above EMA3 + buffer; trailing stop activated'',
         sl_offset = Some (- (2 / 5)), tp_offset = Some 2\<rparr>,
    (SafeStrategy_init 3 3 1 (1 / 2) (2 / 10) (15 / 10) (time_hm 8 0) (time_hm 16 0))
      \<lparr>trailing_activated := True\<rparr>) \<and>
   (- (2 / 5) :: real) < 0"
  using rising_run by (simp add: sample_config_def)

section \<open>The scenario with EMA 100, ATR 2 and price 101\<close>

lemma scenario_reads:
  "iloc (calculate_ema_ref (df_close scenario_frame) (ema_period scenario_config)) (- 1) = Inr 100"
  "iloc (calculate_atr_ref scenario_frame (atr_period scenario_config)) (- 1) = Inr 2"
  "iloc (df_close scenario_frame) (- 1) = Inr 101"
  "iloc (df_close scenario_frame) (- 2) = Inr (1005 / 10)"
  "iloc (df_index scenario_frame) (- 1) = Inr \<lparr>ts_day = 0, ts_time = time_hm 10 2\<rparr>"
  "in_session scenario_config \<lparr>ts_day = 0, ts_time = time_hm 10 2\<rparr>"
  "low_volume scenario_config (df_get_volume scenario_frame) = Inr False"
  "\<not> int (df_len scenario_frame) < max (ema_period scenario_config) (atr_period scenario_config)"
  by (simp_all add: read_defs)

lemma scenario_options:
  "\<not> trailing_activated scenario_config"
  "stop_mult scenario_config = 1"
  "target_mult scenario_config = 1 / 2"
  "buffer_mult scenario_config = 2 / 10"
  by (simp_all add: scenario_config_def SafeStrategy_init_def)

text \<open>
  Claim C10 as stated fails: on the scenario frame the instance has the stated
  multipliers and an inactive trailing stop, the call passes the first three filters
  with EMA 100, ATR 2 and price 101, and it buys with the stop offset 0.3, not 2.
\<close>

theorem scenario_stop_counterexample:
  "\<not> trailing_activated scenario_config \<and>
   stop_mult scenario_config = 1 \<and> target_mult scenario_config = 1 / 2 \<and>
   buffer_mult scenario_config = 2 / 10 \<and>
   \<not> int (df_len scenario_frame) < max (ema_period scenario_config) (atr_period scenario_config) \<and>
   iloc (df_index scenario_frame) (- 1) = Inr \<lparr>ts_day = 0, ts_time = time_hm 10 2\<rparr> \<and>
   in_session scenario_config \<lparr>ts_day = 0, ts_time = time_hm 10 2\<rparr> \<and>
   low_volume scenario_config (df_get_volume scenario_frame) = Inr False \<and>
   iloc (calculate_ema_ref (df_close scenario_frame) (ema_period scenario_config)) (- 1) = Inr 100 \<and>
   iloc (calculate_atr_ref scenario_frame (atr_period scenario_config)) (- 1) = Inr 2 \<and>
   iloc (df_close scenario_frame) (- 1) = Inr 101 \<and>
   SafeStrategy_decide calculate_ema_ref calculate_atr_ref scenario_config
     [''ohlc_1m'' \<mapsto> scenario_frame] =
   (Inr \<lparr>action = ''buy'',
         comment = ''Safe (Low-Risk) Trend-Following Scalper: price 101.00000 above EMA3 + buffer; trailing stop activated'',
         sl_offset = Some (3 / 10), tp_offset = Some 1\<rparr>,
    scenario_config\<lparr>trailing_activated := True\<rparr>) \<and>
   Some (3 / 10 :: real) \<noteq> Some 2"
  using scenario_reads scenario_options scenario_run by simp

text \<open>
  Claim C10, amended.  For a call with the trailing stop not yet activated,
  \<open>stop_mult = 1\<close>, \<open>target_mult = 0.5\<close>, \<open>buffer_mult = 0.2\<close>, that passes the
  data-sufficiency, session and volume filters with latest EMA 100, latest ATR 2 and
  price 101, on a snapshot whose second-to-last close \<open>prev_close\<close> can be read:
  \<^verbatim>\<open>decide\<close> buys, activates the trailing stop, the comment ends with "trailing stop
  activated", the target offset is 1, and the stop offset is
  \<open>min 2 (101 - (prev_close + 0.2))\<close>, which is 2 exactly when \<open>prev_close \<le> 98.8\<close>.
\<close>

theorem scenario_amended:
  assumes "\<not> trailing_activated self"
    and "stop_mult self = 1" and "target_mult self = 1 / 2" and "buffer_mult self = 2 / 10"
    and "data ''ohlc_1m'' = Some df"
    and "\<not> int (df_len df) < max (ema_period self) (atr_period self)"
    and "iloc (df_index df) (- 1) = Inr now"
    and "in_session self now"
    and "low_volume self (df_get_volume df) = Inr False"
    and "iloc (ce (df_close df) (ema_period self)) (- 1) = Inr 100"
    and "iloc (ca df (atr_period self)) (- 1) = Inr 2"
    and "iloc (df_close df) (- 1) = Inr 101"
    and "iloc (df_close df) (- 2) = Inr prev_close"
  shows "SafeStrategy_decide ce ca self data =
     (Inr \<lparr>action = ''buy'',
           comment = SafeStrategy_NAME @ '': price '' @ fmt_5f 101 @ '' above EMA'' @
             str_int (ema_period self) @ '' + buffer; trailing stop activated'',
           sl_offset = Some (min 2 (101 - (prev_close + 2 / 10))),
           tp_offset = Some 1\<rparr>,
      self\<lparr>trailing_activated := True\<rparr>) \<and>
     sublist ''trailing stop activated''
       (SafeStrategy_NAME @ '': price '' @ fmt_5f 101 @ '' above EMA'' @
             str_int (ema_period self) @ '' + buffer; trailing stop activated'') \<and>
     ((min 2 (101 - (prev_close + 2 / 10)) = 2) = (prev_close \<le> 988 / 10))"
proof -
  have run: "SafeStrategy_decide ce ca self data =
      SafeStrategy_trade self (df_close df) 100 2 101 (2 * buffer_mult self)"
    using assms by (simp add: SafeStrategy_decide_def Let_def)
  have tight: "tighten ''buy'' 2 101 (df_close df) 2 = Inr (min 2 (101 - (prev_close + 2 / 10)))"
    using assms(13) by (simp add: tighten_def)
  have "fst (SafeStrategy_trade self (df_close df) 100 2 101 (2 * buffer_mult self)) =
      Inr \<lparr>action = ''buy'',
           comment = SafeStrategy_NAME @ '': price '' @ fmt_5f 101 @ '' above EMA'' @
             str_int (ema_period self) @ '' + buffer; trailing stop activated'',
           sl_offset = Some (min 2 (101 - (prev_close + 2 / 10))),
           tp_offset = Some 1\<rparr>"
    using assms(1-4) tight by (simp add: trade_fst Let_def)
  moreover have "snd (SafeStrategy_trade self (df_close df) 100 2 101 (2 * buffer_mult self)) =
      self\<lparr>trailing_activated := True\<rparr>"
    using assms(1-4) by (simp add: trade_snd)
  ultimately have result: "SafeStrategy_decide ce ca self data =
     (Inr \<lparr>action = ''buy'',
           comment = SafeStrategy_NAME @ '': price '' @ fmt_5f 101 @ '' above EMA'' @
             str_int (ema_period self) @ '' + buffer; trailing stop activated'',
           sl_offset = Some (min 2 (101 - (prev_close + 2 / 10))),
           tp_offset = Some 1\<rparr>,
      self\<lparr>trailing_activated := True\<rparr>)"
    by (simp add: run prod_eq_iff)
  have "SafeStrategy_NAME @ '': price '' @ fmt_5f 101 @ '' above EMA'' @
             str_int (ema_period self) @ '' + buffer; trailing stop activated'' =
        (SafeStrategy_NAME @ '': price '' @ fmt_5f 101 @ '' above EMA'' @
             str_int (ema_period self) @ '' + buffer; '') @ ''trailing stop activated'' @ []"
    by simp
  then have contains: "sublist ''trailing stop activated''
       (SafeStrategy_NAME @ '': price '' @ fmt_5f 101 @ '' above EMA'' @
             str_int (ema_period self) @ '' + buffer; trailing stop activated'')"
    by (simp only: sublist_appendI)
  have "(min 2 (101 - (prev_close + 2 / 10)) = 2) = (prev_close \<le> 988 / 10)"
    by (auto simp add: min_def)
  with result contains show ?thesis by blast
qed


theorem scenario_amended_witness:
  "\<not> trailing_activated scenario_config \<and>
   stop_mult scenario_config = 1 \<and> target_mult scenario_config = 1 / 2 \<and>
   buffer_mult scenario_config = 2 / 10 \<and>
   [''ohlc_1m'' \<mapsto> scenario_frame] ''ohlc_1m'' = Some scenario_frame \<and>
   \<not> int (df_len scenario_frame) < max (ema_period scenario_config) (atr_period scenario_config) \<and>
   iloc (df_index scenario_frame) (- 1) = Inr \<lparr>ts_day = 0, ts_time = time_hm 10 2\<rparr> \<and>
   in_session scenario_config \<lparr>ts_day = 0, ts_time = time_hm 10 2\<rparr> \<and>
   low_volume scenario_config (df_get_volume scenario_frame) = Inr False \<and>
   iloc (calculate_ema_ref (df_close scenario_frame) (ema_period scenario_config)) (- 1) = Inr 100 \<and>
   iloc (calculate_atr_ref scenario_frame (atr_period scenario_config)) (- 1) = Inr 2 \<and>
   iloc (df_close scenario_frame) (- 1) = Inr 101 \<and>
   iloc (df_close scenario_frame) (- 2) = Inr (1005 / 10) \<and>
   SafeStrategy_decide calculate_ema_ref calculate_atr_ref scenario_config
     [''ohlc_1m'' \<mapsto> scenario_frame] =
     (Inr \<lparr>action = ''buy'',
           comment = SafeStrategy_NAME @ '': price '' @ fmt_5f 101 @ '' above EMA'' @
             str_int (ema_period scenario_config) @ '' + buffer; trailing stop activated'',
           sl_offset = Some (min 2 (101 - (1005 / 10 + 2 / 10))),
           tp_offset = Some 1\<rparr>,
      scenario_config\<lparr>trailing_activated := True\<rparr>) \<and>
   min 2 (101 - (1005 / 10 + 2 / 10)) = (3 / 10 :: real)"
proof -
  have present: "[''ohlc_1m'' \<mapsto> scenario_frame] ''ohlc_1m'' = Some scenario_frame" by simp
  have stop: "min 2 (101 - (1005 / 10 + 2 / 10)) = (3 / 10 :: real)" by simp
  from scenario_amended [where data = "[''ohlc_1m'' \<mapsto> scenario_frame]"
      and ce = calculate_ema_ref and ca = calculate_atr_ref,
      OF scenario_options present scenario_reads(8) scenario_reads(5) scenario_reads(6)
         scenario_reads(7) scenario_reads(1) scenario_reads(2) scenario_reads(3) scenario_reads(4)]
  have "SafeStrategy_decide calculate_ema_ref calculate_atr_ref scenario_config
     [''ohlc_1m'' \<mapsto> scenario_frame] =
     (Inr \<lparr>action = ''buy'',
           comment = SafeStrategy_NAME @ '': price '' @ fmt_5f 101 @ '' above EMA'' @
             str_int (ema_period scenario_config) @ '' + buffer; trailing stop activated'',
           sl_offset = Some (min 2 (101 - (1005 / 10 + 2 / 10))),
           tp_offset = Some 1\<rparr>,
      scenario_config\<lparr>trailing_activated := True\<rparr>)"
    by blast
  with scenario_options present scenario_reads stop show ?thesis by blast
qed

section \<open>The invariant of a decision\<close>

lemma hold_invariant: "decision_invariant (SafeStrategy_hold reason)"
  by (simp add: decision_invariant_def hold_fields)

lemma trade_invariant:
  assumes "fst (SafeStrategy_trade self close ema atr price buffer) = Inr r"
  shows "decision_invariant r"
  using trade_action [OF assms]
  by (auto simp add: decision_invariant_def split: if_splits)

lemma decide_invariant:
  assumes "fst (SafeStrategy_decide ce ca self data) = Inr r"
  shows "decision_invariant r"
proof (cases "data ''ohlc_1m''")
  case None
  with assms show ?thesis by (auto simp add: decide_absent hold_invariant)
next
  case (Some df)
  show ?thesis
  proof (cases "int (df_len df) < max (ema_period self) (atr_period self)")
    case True
    with Some assms show ?thesis by (auto simp add: decide_short hold_invariant)
  next
    case False
    from decide_enough [where data = data and self = self and ce = ce and ca = ca, OF Some False]
      assms
    show ?thesis
      by (elim disjE exE conjE) (auto simp add: hold_invariant trade_invariant split: if_splits)
  qed
qed

lemma invariant_hold:
  "decision_invariant \<lparr>action = ''hold'', comment = c, sl_offset = None, tp_offset = None\<rparr>"
  by (simp add: decision_invariant_def)

lemma invariant_buy:
  "decision_invariant \<lparr>action = ''buy'', comment = c, sl_offset = Some s, tp_offset = Some t\<rparr>"
  by (simp add: decision_invariant_def)

lemma invariant_sell:
  "decision_invariant \<lparr>action = ''sell'', comment = c, sl_offset = Some s, tp_offset = Some t\<rparr>"
  by (simp add: decision_invariant_def)

lemma moderate_invariant:
  "ModerateStrategy_decide ce ca data = Inr r \<Longrightarrow> decision_invariant r"
  by (auto simp add: ModerateStrategy_decide_def Let_def invariant_hold invariant_buy invariant_sell
      split: option.splits sum.splits if_splits)

lemma aggressive_invariant:
  "AggressiveStrategy_decide ce ca data = Inr r \<Longrightarrow> decision_invariant r"
  by (auto simp add: AggressiveStrategy_decide_def Let_def invariant_hold invariant_buy invariant_sell
      split: option.splits sum.splits if_splits)

lemma momentum_invariant:
  "MomentumStrategy_decide ce ca data = Inr r \<Longrightarrow> decision_invariant r"
  by (auto simp add: MomentumStrategy_decide_def Let_def invariant_hold invariant_buy invariant_sell
      split: option.splits sum.splits if_splits)

lemma mean_reversion_invariant:
  "MeanReversionStrategy_decide ce ca data = Inr r \<Longrightarrow> decision_invariant r"
  by (auto simp add: MeanReversionStrategy_decide_def Let_def invariant_hold invariant_buy invariant_sell
      split: option.splits sum.splits if_splits)

lemmas long_defs = sample_long_def bar_at_def time_hm_def iloc_def df_len_def df_close_def
  calculate_ema_ref_def calculate_atr_ref_def true_range_def Let_def

lemma long_moderate:
  "ModerateStrategy_decide calculate_ema_ref calculate_atr_ref [''ohlc_1m'' \<mapsto> sample_long] =
   Inr \<lparr>action = ''buy'', comment = ''Moderate Trend-Following Scalper: bullish trend detected'',
     sl_offset = Some (111 / 28), tp_offset = Some (37 / 14)\<rparr>"
  by (simp add: ModerateStrategy_decide_def ModerateStrategy_NAME_def long_defs)

lemma long_aggressive:
  "AggressiveStrategy_decide calculate_ema_ref calculate_atr_ref [''ohlc_1m'' \<mapsto> sample_long] =
   Inr \<lparr>action = ''buy'', comment = ''Aggressive Trend-Following Scalper: going long aggressively'',
     sl_offset = Some (46 / 7), tp_offset = Some (69 / 14)\<rparr>"
  by (simp add: AggressiveStrategy_decide_def AggressiveStrategy_NAME_def long_defs)

lemma long_momentum:
  "MomentumStrategy_decide calculate_ema_ref calculate_atr_ref [''ohlc_1m'' \<mapsto> sample_long] =
   Inr \<lparr>action = ''sell'', comment = ''Momentum Fade Scalper: fading overextension'',
     sl_offset = Some (37 / 14), tp_offset = Some (111 / 28)\<rparr>"
  by (simp add: MomentumStrategy_decide_def MomentumStrategy_NAME_def long_defs)

lemma long_mean_reversion:
  "MeanReversionStrategy_decide calculate_ema_ref calculate_atr_ref [''ohlc_1m'' \<mapsto> sample_long] =
   Inr \<lparr>action = ''sell'', comment = ''Mean-Reversion Scalper: price above upper band'',
     sl_offset = Some (37 / 14), tp_offset = Some (37 / 7)\<rparr>"
  by (simp add: MeanReversionStrategy_decide_def MeanReversionStrategy_NAME_def long_defs)

text \<open>
  Claim C1.  For each of the five strategies and every input, a decision that
  \<^verbatim>\<open>decide\<close> returns has the action \<^verbatim>\<open>hold\<close> exactly when both offsets are null,
  and the action \<^verbatim>\<open>buy\<close> or \<^verbatim>\<open>sell\<close> exactly when both offsets are numbers.
\<close>

theorem offsets_match_action:
  "(fst (SafeStrategy_decide ce ca self data) = Inr r \<longrightarrow> decision_invariant r) \<and>
   (ModerateStrategy_decide ce ca data = Inr r \<longrightarrow> decision_invariant r) \<and>
   (AggressiveStrategy_decide ce ca data = Inr r \<longrightarrow> decision_invariant r) \<and>
   (MomentumStrategy_decide ce ca data = Inr r \<longrightarrow> decision_invariant r) \<and>
   (MeanReversionStrategy_decide ce ca data = Inr r \<longrightarrow> decision_invariant r)"
  by (simp add: decide_invariant moderate_invariant aggressive_invariant momentum_invariant
      mean_reversion_invariant)

theorem offsets_match_action_witness:
  "fst (SafeStrategy_decide calculate_ema_ref calculate_atr_ref sample_config
     [''ohlc_1m'' \<mapsto> sample_rising]) =
     Inr \<lparr>action = ''buy'',
         comment = ''Safe (Low-Risk) Trend-Following Scalper: price 100.00000 above EMA3 + buffer; trailing stop activated'',
         sl_offset = Some (- (2 / 5)), tp_offset = Some 2\<rparr> \<and>
   decision_invariant \<lparr>action = ''buy'',
         comment = ''Safe (Low-Risk) Trend-Following Scalper: price 100.00000 above EMA3 + buffer; trailing stop activated'',
         sl_offset = Some (- (2 / 5)), tp_offset = Some 2\<rparr> \<and>
   fst (SafeStrategy_decide calculate_ema_ref calculate_atr_ref sample_config
     [''ohlc_1m'' \<mapsto> sample_flat]) = Inr (SafeStrategy_hold ''within buffer zone'') \<and>
   decision_invariant (SafeStrategy_hold ''within buffer zone'') \<and>
   ModerateStrategy_decide calculate_ema_ref calculate_atr_ref [''ohlc_1m'' \<mapsto> sample_long] =
     Inr \<lparr>action = ''buy'', comment = ''Moderate Trend-Following Scalper: bullish trend detected'',
       sl_offset = Some (111 / 28), tp_offset = Some (37 / 14)\<rparr> \<and>
   decision_invariant
     \<lparr>action = ''buy'', comment = ''Moderate Trend-Following Scalper: bullish trend detected'',
       sl_offset = Some (111 / 28), tp_offset = Some (37 / 14)\<rparr> \<and>
   AggressiveStrategy_decide calculate_ema_ref calculate_atr_ref [''ohlc_1m'' \<mapsto> sample_long] =
     Inr \<lparr>action = ''buy'', comment = ''Aggressive Trend-Following Scalper: going long aggressively'',
       sl_offset = Some (46 / 7), tp_offset = Some (69 / 14)\<rparr> \<and>
   decision_invariant
     \<lparr>action = ''buy'', comment = ''Aggressive Trend-Following Scalper: going long aggressively'',
       sl_offset = Some (46 / 7), tp_offset = Some (69 / 14)\<rparr> \<and>
   MomentumStrategy_decide calculate_ema_ref calculate_atr_ref [''ohlc_1m'' \<mapsto> sample_long] =
     Inr \<lparr>action = ''sell'', comment = ''Momentum Fade Scalper: fading overextension'',
       sl_offset = Some (37 / 14), tp_offset = Some (111 / 28)\<rparr> \<and>
   decision_invariant
     \<lparr>action = ''sell'', comment = ''Momentum Fade Scalper: fading overextension'',
       sl_offset = Some (37 / 14), tp_offset = Some (111 / 28)\<rparr> \<and>
   MeanReversionStrategy_decide calculate_ema_ref calculate_atr_ref [''ohlc_1m'' \<mapsto> sample_long] =
     Inr \<lparr>action = ''sell'', comment = ''Mean-Reversion Scalper: price above upper band'',
       sl_offset = Some (37 / 14), tp_offset = Some (37 / 7)\<rparr> \<and>
   decision_invariant
     \<lparr>action = ''sell'', comment = ''Mean-Reversion Scalper: price above upper band'',
       sl_offset = Some (37 / 14), tp_offset = Some (37 / 7)\<rparr>"
proof -
  have safe_buy: "fst (SafeStrategy_decide calculate_ema_ref calculate_atr_ref sample_config
     [''ohlc_1m'' \<mapsto> sample_rising]) =
     Inr \<lparr>action = ''buy'',
         comment = ''Safe (Low-Risk) Trend-Following Scalper: price 100.00000 above EMA3 + buffer; trailing stop activated'',
         sl_offset = Some (- (2 / 5)), tp_offset = Some 2\<rparr>"
    by (simp add: rising_run)
  have safe_hold: "fst (SafeStrategy_decide calculate_ema_ref calculate_atr_ref sample_config
     [''ohlc_1m'' \<mapsto> sample_flat]) = Inr (SafeStrategy_hold ''within buffer zone'')"
    by (simp add: flat_run)
  note all = offsets_match_action [where ce = calculate_ema_ref and ca = calculate_atr_ref]
  from all [where self = sample_config and data = "[''ohlc_1m'' \<mapsto> sample_rising]"] safe_buy
  have i1: "decision_invariant \<lparr>action = ''buy'',
         comment = ''Safe (Low-Risk) Trend-Following Scalper: price 100.00000 above EMA3 + buffer; trailing stop activated'',
         sl_offset = Some (- (2 / 5)), tp_offset = Some 2\<rparr>"
    by blast
  from all [where self = sample_config and data = "[''ohlc_1m'' \<mapsto> sample_flat]"] safe_hold
  have i2: "decision_invariant (SafeStrategy_hold ''within buffer zone'')"
    by blast
  from all [where data = "[''ohlc_1m'' \<mapsto> sample_long]"] long_moderate
  have i3: "decision_invariant
     \<lparr>action = ''buy'', comment = ''Moderate Trend-Following Scalper: bullish trend detected'',
       sl_offset = Some (111 / 28), tp_offset = Some (37 / 14)\<rparr>"
    by blast
  from all [where data = "[''ohlc_1m'' \<mapsto> sample_long]"] long_aggressive
  have i4: "decision_invariant
     \<lparr>action = ''buy'', comment = ''Aggressive Trend-Following Scalper: going long aggressively'',
       sl_offset = Some (46 / 7), tp_offset = Some (69 / 14)\<rparr>"
    by blast
  from all [where data = "[''ohlc_1m'' \<mapsto> sample_long]"] long_momentum
  have i5: "decision_invariant
     \<lparr>action = ''sell'', comment = ''Momentum Fade Scalper: fading overextension'',
       sl_offset = Some (37 / 14), tp_offset = Some (111 / 28)\<rparr>"
    by blast
  from all [where data = "[''ohlc_1m'' \<mapsto> sample_long]"] long_mean_reversion
  have i6: "decision_invariant
     \<lparr>action = ''sell'', comment = ''Mean-Reversion Scalper: price above upper band'',
       sl_offset = Some (37 / 14), tp_offset = Some (37 / 7)\<rparr>"
    by blast
  from safe_buy safe_hold long_moderate long_aggressive long_momentum long_mean_reversion
    i1 i2 i3 i4 i5 i6
  show ?thesis by blast
qed

end
